theory Spec2Isabelle
  imports Complex_Main "HOL-Library.Stream"
begin

section \<open>JavaScript numbers\<close>

text \<open>
  The program computes with JavaScript numbers. The model keeps the three non-finite
  values apart from the finite ones, so that a division by zero, which in JavaScript
  does not raise but yields an infinity or NaN, is a visible result. Finite values are
  real numbers: binary rounding, overflow to an infinity and the sign of zero are
  idealised away (a zero is the positive zero).
\<close>

datatype jsnum = Fin real | PInf | NInf | NaN

fun is_finite :: "jsnum \<Rightarrow> bool" where
  "is_finite (Fin x) = True"
| "is_finite v = False"

fun js_neg :: "jsnum \<Rightarrow> jsnum" where
  "js_neg (Fin x) = Fin (- x)"
| "js_neg PInf = NInf"
| "js_neg NInf = PInf"
| "js_neg NaN = NaN"

fun js_add :: "jsnum \<Rightarrow> jsnum \<Rightarrow> jsnum" where
  "js_add NaN b = NaN"
| "js_add a NaN = NaN"
| "js_add (Fin x) (Fin y) = Fin (x + y)"
| "js_add PInf NInf = NaN"
| "js_add NInf PInf = NaN"
| "js_add PInf b = PInf"
| "js_add NInf b = NInf"
| "js_add (Fin x) b = b"

definition js_sub :: "jsnum \<Rightarrow> jsnum \<Rightarrow> jsnum" where
  "js_sub a b = js_add a (js_neg b)"

text \<open>The sign of a product or quotient one of whose operands is infinite.\<close>

definition signed_inf :: "bool \<Rightarrow> jsnum" where
  "signed_inf positive = (if positive then PInf else NInf)"

fun js_mul :: "jsnum \<Rightarrow> jsnum \<Rightarrow> jsnum" where
  "js_mul NaN b = NaN"
| "js_mul a NaN = NaN"
| "js_mul (Fin x) (Fin y) = Fin (x * y)"
| "js_mul (Fin x) PInf = (if x = 0 then NaN else signed_inf (0 < x))"
| "js_mul (Fin x) NInf = (if x = 0 then NaN else signed_inf (x < 0))"
| "js_mul PInf (Fin y) = (if y = 0 then NaN else signed_inf (0 < y))"
| "js_mul NInf (Fin y) = (if y = 0 then NaN else signed_inf (y < 0))"
| "js_mul PInf PInf = PInf"
| "js_mul NInf NInf = PInf"
| "js_mul PInf NInf = NInf"
| "js_mul NInf PInf = NInf"

fun js_div :: "jsnum \<Rightarrow> jsnum \<Rightarrow> jsnum" where
  "js_div NaN b = NaN"
| "js_div a NaN = NaN"
| "js_div (Fin x) (Fin y) =
     (if y = 0 then (if x = 0 then NaN else signed_inf (0 < x)) else Fin (x / y))"
| "js_div (Fin x) b = Fin 0"
| "js_div PInf (Fin y) = signed_inf (0 \<le> y)"
| "js_div NInf (Fin y) = signed_inf (y < 0)"
| "js_div a b = NaN"

text \<open>The comparisons \<^verbatim>\<open>a <= b\<close> and \<^verbatim>\<open>a > b\<close>: false as soon as one side is NaN.\<close>

fun js_le :: "jsnum \<Rightarrow> jsnum \<Rightarrow> bool" where
  "js_le NaN b = False"
| "js_le a NaN = False"
| "js_le (Fin x) (Fin y) = (x \<le> y)"
| "js_le NInf b = True"
| "js_le a PInf = True"
| "js_le a b = False"

fun js_gt :: "jsnum \<Rightarrow> jsnum \<Rightarrow> bool" where
  "js_gt NaN b = False"
| "js_gt a NaN = False"
| "js_gt (Fin x) (Fin y) = (y < x)"
| "js_gt NInf b = False"
| "js_gt a PInf = False"
| "js_gt a b = True"

text \<open>\<^verbatim>\<open>Math.round\<close> rounds to the nearest integer, a tie towards plus infinity.\<close>

fun Math_round :: "jsnum \<Rightarrow> jsnum" where
  "Math_round (Fin x) = Fin (of_int \<lfloor>x + 1 / 2\<rfloor>)"
| "Math_round v = v"

text \<open>\<^verbatim>\<open>Math.max(0, v)\<close>.\<close>

fun Math_max0 :: "jsnum \<Rightarrow> jsnum" where
  "Math_max0 (Fin x) = Fin (max 0 x)"
| "Math_max0 PInf = PInf"
| "Math_max0 NInf = Fin 0"
| "Math_max0 NaN = NaN"

text \<open>
  \<^verbatim>\<open>Number(v.toFixed(2))\<close>: two decimal places, a tie away from zero; from \<open>10\<^sup>2\<^sup>1\<close> on
  \<^verbatim>\<open>toFixed\<close> prints the number itself, and the non-finite values print as their names,
  which \<^verbatim>\<open>Number\<close> reads back.
\<close>

definition round2 :: "real \<Rightarrow> real" where
  "round2 x = sgn x * of_int \<lfloor>\<bar>x\<bar> * 100 + 1 / 2\<rfloor> / 100"

fun toFixed2 :: "jsnum \<Rightarrow> jsnum" where
  "toFixed2 (Fin x) = (if 10 ^ 21 \<le> \<bar>x\<bar> then Fin x else Fin (round2 x))"
| "toFixed2 v = v"

section \<open>JavaScript values\<close>

text \<open>
  The payload is whatever \<^verbatim>\<open>JSON.parse\<close> returns, and the type annotations of the
  source are erased when it runs: a field of the payload can hold any value, and a
  missing one reads as \<^verbatim>\<open>undefined\<close>. An object is the list of its keys with their
  values, each key once.
\<close>

datatype jsval =
    Undefined
  | JNull
  | JBool bool
  | JNum jsnum
  | JStr string
  | JArr "jsval list"
  | JObj "(string \<times> jsval) list"

datatype js_error = TransportFailure | SyntaxError | TypeError

text \<open>
  Reading properties \<^verbatim>\<open>v.k\<close>: a \<^verbatim>\<open>TypeError\<close> on \<^verbatim>\<open>null\<close> and \<^verbatim>\<open>undefined\<close>, the stored
  value on an object, \<^verbatim>\<open>undefined\<close> for a key the object does not have and for every
  key the source reads on a number, string, boolean or array.
\<close>

fun props :: "jsval \<Rightarrow> js_error + (string \<Rightarrow> jsval)" where
  "props Undefined = Inl TypeError"
| "props JNull = Inl TypeError"
| "props (JObj kvs) = Inr (\<lambda>k. case map_of kvs k of None \<Rightarrow> Undefined | Some v \<Rightarrow> v)"
| "props v = Inr (\<lambda>k. Undefined)"

fun truthy :: "jsval \<Rightarrow> bool" where
  "truthy Undefined = False"
| "truthy JNull = False"
| "truthy (JBool b) = b"
| "truthy (JNum (Fin x)) = (x \<noteq> 0)"
| "truthy (JNum NaN) = False"
| "truthy (JNum n) = True"
| "truthy (JStr s) = (s \<noteq> [])"
| "truthy (JArr vs) = True"
| "truthy (JObj kvs) = True"

text \<open>\<^verbatim>\<open>a || b\<close>.\<close>

definition js_or :: "jsval \<Rightarrow> jsval \<Rightarrow> jsval" where
  "js_or a b = (if truthy a then a else b)"

text \<open>
  The numeric value of a primitive that is not a string. Strings, arrays and objects
  are converted by the runtime (parsing the string, joining the array, calling
  \<^verbatim>\<open>valueOf\<close> and \<^verbatim>\<open>toString\<close>, which can raise when the object's own keys shadow
  them): that conversion is the parameter \<open>tn\<close> of the model.
\<close>

fun prim_num :: "jsval \<Rightarrow> jsnum option" where
  "prim_num Undefined = Some NaN"
| "prim_num JNull = Some (Fin 0)"
| "prim_num (JBool b) = Some (Fin (if b then 1 else 0))"
| "prim_num (JNum n) = Some n"
| "prim_num v = None"

definition ToNumber :: "(jsval \<Rightarrow> js_error + jsnum) \<Rightarrow> jsval \<Rightarrow> js_error + jsnum" where
  "ToNumber tn v = (case prim_num v of Some n \<Rightarrow> Inr n | None \<Rightarrow> tn v)"

section \<open>Randomness\<close>

text \<open>
  \<^verbatim>\<open>Math.random()\<close> reads the next draw of a source of numbers in \<open>[0, 1)\<close>, here a
  stream that is passed along.

  A choice \<^verbatim>\<open>Math.random() > t ? a : b\<close> is kept as a tree, which has two readings:
  \<open>run_rnd\<close> takes the draws from the stream, and \<open>prob\<close> is the measure of the draw
  sequences whose result satisfies \<open>E\<close> when the draws are independent and uniform on
  \<open>[0, 1)\<close>, where a draw exceeds \<open>t\<close> with probability \<open>1 - t\<close> (for \<open>t\<close> in \<open>[0, 1]\<close>).
\<close>

datatype 'a rnd = Ret 'a | RandomGt real "'a rnd" "'a rnd"

fun run_rnd :: "'a rnd \<Rightarrow> real stream \<Rightarrow> 'a \<times> real stream" where
  "run_rnd (Ret x) rs = (x, rs)"
| "run_rnd (RandomGt t a b) rs =
     (if t < shd rs then run_rnd a (stl rs) else run_rnd b (stl rs))"

fun prob :: "'a rnd \<Rightarrow> ('a \<Rightarrow> bool) \<Rightarrow> real" where
  "prob (Ret x) E = (if E x then 1 else 0)"
| "prob (RandomGt t a b) E = (1 - t) * prob a E + t * prob b E"

section \<open>Data model\<close>

record ProductInput =
  name :: string
  cost :: jsnum
  currency :: string
  location :: string
  category :: string
  desiredMargin :: jsnum

datatype StockStatus = InStock | LowStock | OutOfStock

record Competitor =
  name :: jsval
  price :: jsval
  stockStatus :: StockStatus
  trend :: jsval
  history :: "jsnum list"

record Seasonality =
  signal :: jsval
  adjustmentFactor :: jsval
  explanation :: jsval

text \<open>The field \<open>range_min\<close> is the source's \<^verbatim>\<open>priceRange.min\<close>.\<close>

record PriceRange =
  range_min :: jsval
  suggested :: jsval
  premium :: jsval

record PricingResult =
  recommendedPrice :: jsval
  priceRange :: PriceRange
  profitMargin :: jsnum
  confidenceScore :: jsval
  explanation :: jsval
  evidence :: jsval
  seasonality :: Seasonality
  competitors :: "Competitor list"
  strategy :: jsval

record ConversionPoint =
  price :: jsnum
  estimatedSales :: jsnum
  revenue :: jsnum

section \<open>The normalizer\<close>

text \<open>
  What the awaited call and \<^verbatim>\<open>JSON.parse(response.text || "{}")\<close> leave: the call is
  rejected, the text is missing or empty (then the empty object is parsed), the text is
  not JSON, or the parsed value.
\<close>

datatype ai_response = CallFailed | NoText | BadText | Parsed jsval

fun response_data :: "ai_response \<Rightarrow> js_error + jsval" where
  "response_data CallFailed = Inl TransportFailure"
| "response_data NoText = Inr (JObj [])"
| "response_data BadText = Inl SyntaxError"
| "response_data (Parsed v) = Inr v"

text \<open>
  \<^verbatim>\<open>Math.random() > 0.8 ? 'Low Stock' : (Math.random() > 0.9 ? 'Out of Stock' : 'In Stock')\<close>
\<close>

definition stockStatus_rnd :: "StockStatus rnd" where
  "stockStatus_rnd =
     RandomGt (8 / 10) (Ret LowStock) (RandomGt (9 / 10) (Ret OutOfStock) (Ret InStock))"

text \<open>
  One entry of the history, from the draw \<open>u\<close>:
  \<^verbatim>\<open>Number((c.price + (u - 0.5) * (c.price * 0.1)).toFixed(2))\<close>. When \<^verbatim>\<open>c.price\<close> is a
  string, an array or an object, \<^verbatim>\<open>+\<close> concatenates strings (or the conversion of the
  object has raised before), and the call of \<^verbatim>\<open>toFixed\<close> on a string raises.
\<close>

definition history_entry :: "jsval \<Rightarrow> real \<Rightarrow> js_error + jsnum" where
  "history_entry cprice u =
     (case prim_num cprice of
        None \<Rightarrow> Inl TypeError
      | Some n \<Rightarrow>
          (let variation = js_mul (js_sub (Fin u) (Fin (5 / 10))) (js_mul n (Fin (1 / 10)))
           in Inr (toFixed2 (js_add n variation))))"

text \<open>\<^verbatim>\<open>Array.from({ length: n }, ...)\<close>: the entries in the order of the index.\<close>

fun history_from ::
  "jsval \<Rightarrow> nat \<Rightarrow> real stream \<Rightarrow> js_error + (jsnum list \<times> real stream)" where
  "history_from cprice 0 rs = Inr ([], rs)"
| "history_from cprice (Suc n) rs =
     (case history_entry cprice (shd rs) of
        Inl e \<Rightarrow> Inl e
      | Inr h \<Rightarrow>
          (case history_from cprice n (stl rs) of
             Inl e \<Rightarrow> Inl e
           | Inr (hs, rs') \<Rightarrow> Inr (h # hs, rs')))"

text \<open>The callback of \<^verbatim>\<open>map\<close> for one entry \<open>c\<close> of the payload's competitors.\<close>

definition competitor_of :: "jsval \<Rightarrow> real stream \<Rightarrow> js_error + (Competitor \<times> real stream)" where
  "competitor_of c rs =
     (case props c of
        Inl e \<Rightarrow> Inl e
      | Inr f \<Rightarrow>
          (let (status, rs1) = run_rnd stockStatus_rnd rs
           in case history_from (f ''price'') 6 rs1 of
                Inl e \<Rightarrow> Inl e
              | Inr (hs, rs2) \<Rightarrow>
                  Inr (\<lparr>name = f ''name'', price = f ''price'', stockStatus = status,
                        trend = js_or (f ''trend'') (JStr ''stable''), history = rev hs\<rparr>,
                       rs2)))"

fun map_competitors ::
  "jsval list \<Rightarrow> real stream \<Rightarrow> js_error + (Competitor list \<times> real stream)" where
  "map_competitors [] rs = Inr ([], rs)"
| "map_competitors (c # cs) rs =
     (case competitor_of c rs of
        Inl e \<Rightarrow> Inl e
      | Inr (k, rs1) \<Rightarrow>
          (case map_competitors cs rs1 of
             Inl e \<Rightarrow> Inl e
           | Inr (ks, rs2) \<Rightarrow> Inr (k # ks, rs2)))"

text \<open>
  The body of the \<^verbatim>\<open>try\<close> block: \<open>Inl\<close> is an exception, which the \<^verbatim>\<open>catch\<close> receives.
  \<^verbatim>\<open>(data.competitors || []).map\<close> is a function only on an array.
\<close>

definition normalize_response ::
  "(jsval \<Rightarrow> js_error + jsnum) \<Rightarrow> ai_response \<Rightarrow> ProductInput \<Rightarrow> real stream
     \<Rightarrow> js_error + PricingResult" where
  "normalize_response tn response input rs =
     (case response_data response of
        Inl e \<Rightarrow> Inl e
      | Inr data \<Rightarrow>
          (case props data of
             Inl e \<Rightarrow> Inl e
           | Inr d \<Rightarrow>
               (case js_or (d ''competitors'') (JArr []) of
                  JArr cs \<Rightarrow>
                    (case map_competitors cs rs of
                       Inl e \<Rightarrow> Inl e
                     | Inr (comps, rs') \<Rightarrow>
                         (case ToNumber tn (d ''recommendedPrice'') of
                            Inl e \<Rightarrow> Inl e
                          | Inr rp \<Rightarrow>
                              Inr \<lparr>recommendedPrice = d ''recommendedPrice'',
                                   priceRange = \<lparr>range_min = d ''minPrice'',
                                                 suggested = d ''recommendedPrice'',
                                                 premium = d ''premiumPrice''\<rparr>,
                                   profitMargin =
                                     js_mul (js_div (js_sub rp (cost input)) rp) (Fin 100),
                                   confidenceScore = d ''confidenceScore'',
                                   explanation = d ''explanation'',
                                   evidence = d ''evidence'',
                                   seasonality =
                                     \<lparr>signal = d ''seasonalitySignal'',
                                      adjustmentFactor =
                                        js_or (d ''seasonalityFactor'') (JNum (Fin 1)),
                                      explanation = d ''seasonalityExplanation''\<rparr>,
                                   competitors = comps,
                                   strategy = d ''strategy''\<rparr>))
                | _ \<Rightarrow> Inl TypeError)))"

text \<open>The \<^verbatim>\<open>catch\<close> block.\<close>

definition fallback :: "ProductInput \<Rightarrow> PricingResult" where
  "fallback input =
     (let basePrice = js_mul (cost input) (js_add (Fin 1) (js_div (desiredMargin input) (Fin 100)))
      in \<lparr>recommendedPrice = JNum (js_div (Math_round (js_mul basePrice (Fin 100))) (Fin 100)),
          priceRange = \<lparr>range_min = JNum basePrice, suggested = JNum basePrice,
                        premium = JNum (js_mul basePrice (Fin (12 / 10)))\<rparr>,
          profitMargin = desiredMargin input,
          confidenceScore = JNum (Fin 50),
          explanation = JStr ''Fallback pricing calculation due to service interruption.'',
          evidence = JArr [JStr ''Cost basis calculation''],
          seasonality = \<lparr>signal = JStr ''Neutral'', adjustmentFactor = JNum (Fin 1),
                         explanation = JStr ''No data''\<rparr>,
          competitors = [],
          strategy = JStr ''Cost-Plus''\<rparr>)"

definition analyzePrice ::
  "(jsval \<Rightarrow> js_error + jsnum) \<Rightarrow> ai_response \<Rightarrow> ProductInput \<Rightarrow> real stream \<Rightarrow> PricingResult" where
  "analyzePrice tn response input rs =
     (case normalize_response tn response input rs of
        Inl e \<Rightarrow> fallback input
      | Inr r \<Rightarrow> r)"

section \<open>The elasticity curve\<close>

text \<open>The candidate price of the offset \<open>i\<close>: \<^verbatim>\<open>currentPrice + (i * step)\<close>.\<close>

definition candidate_price :: "jsnum \<Rightarrow> int \<Rightarrow> jsnum" where
  "candidate_price currentPrice i =
     (let step = js_mul currentPrice (Fin (5 / 100))
      in js_add currentPrice (js_mul (Fin (of_int i)) step))"

text \<open>
  The body of the loop of \<^verbatim>\<open>calculateConversion\<close> for one offset \<open>i\<close>: \<open>None\<close> is the
  \<^verbatim>\<open>continue\<close>, taken before the division by \<open>currentPrice\<close> is reached; otherwise the
  point that is pushed. The parameter \<open>cst\<close> is the source's \<^verbatim>\<open>cost\<close>.
\<close>

definition curve_point :: "jsnum \<Rightarrow> jsnum \<Rightarrow> int \<Rightarrow> ConversionPoint option" where
  "curve_point currentPrice cst i =
     (let p = candidate_price currentPrice i
      in if js_le p cst then None
         else
           let elasticity = Fin (15 / 10);
               pctChangePrice = js_div (js_sub p currentPrice) currentPrice;
               pctChangeDemand = js_mul (js_neg elasticity) pctChangePrice;
               sales = Math_max0 (Math_round (js_mul (Fin 100) (js_add (Fin 1) pctChangeDemand)))
           in Some \<lparr>price = toFixed2 p, estimatedSales = sales,
                     revenue = toFixed2 (js_mul p sales)\<rparr>)"

text \<open>
  The loop \<^verbatim>\<open>for (let i = -range; i <= range; i++)\<close>, the array \<open>points\<close> threaded through
  (\<open>rng\<close> is the source's \<^verbatim>\<open>range\<close>).
\<close>

function conversion_loop ::
  "jsnum \<Rightarrow> jsnum \<Rightarrow> int \<Rightarrow> int \<Rightarrow> ConversionPoint list \<Rightarrow> ConversionPoint list" where
  "conversion_loop currentPrice cst rng i points =
     (if i \<le> rng
      then (case curve_point currentPrice cst i of
              None \<Rightarrow> conversion_loop currentPrice cst rng (i + 1) points
            | Some pt \<Rightarrow> conversion_loop currentPrice cst rng (i + 1) (points @ [pt]))
      else points)"
  by pat_completeness auto
termination
  by (relation "measure (\<lambda>(currentPrice, cst, rng, i, points). nat (rng + 1 - i))") auto

declare conversion_loop.simps [simp del]

definition calculateConversion :: "jsnum \<Rightarrow> jsnum \<Rightarrow> ConversionPoint list" where
  "calculateConversion currentPrice cst =
     (let rng = 5 in conversion_loop currentPrice cst rng (- rng) [])"

section \<open>Payloads by their shape\<close>

text \<open>
  The predicates below speak about a payload alone, without running the normalizer:
  \<open>field\<close> reads a key the way a property access that does not raise does, \<open>nullish\<close>
  are the two values on which a property access raises, and \<open>concatenating\<close> are the
  kinds for which \<^verbatim>\<open>+\<close> builds a string.
\<close>

fun nullish :: "jsval \<Rightarrow> bool" where
  "nullish Undefined = True"
| "nullish JNull = True"
| "nullish v = False"

fun concatenating :: "jsval \<Rightarrow> bool" where
  "concatenating (JStr s) = True"
| "concatenating (JArr vs) = True"
| "concatenating (JObj kvs) = True"
| "concatenating v = False"

fun field :: "jsval \<Rightarrow> string \<Rightarrow> jsval" where
  "field (JObj kvs) k = (case map_of kvs k of None \<Rightarrow> Undefined | Some v \<Rightarrow> v)"
| "field v k = Undefined"

text \<open>An entry of the competitors on which the callback raises.\<close>

definition bad_competitor :: "jsval \<Rightarrow> bool" where
  "bad_competitor c = (nullish c \<or> concatenating (field c ''price''))"

text \<open>
  A value of the key \<^verbatim>\<open>competitors\<close> on which the mapping raises: an array with a bad entry,
  or a truthy value that is no array.
\<close>

fun bad_competitors :: "jsval \<Rightarrow> bool" where
  "bad_competitors (JArr cs) = list_ex bad_competitor cs"
| "bad_competitors v = truthy v"

text \<open>The entries that are mapped: those of an array, and none for a falsy value.\<close>

definition competitor_entries :: "jsval \<Rightarrow> jsval list" where
  "competitor_entries data = (case field data ''competitors'' of JArr cs \<Rightarrow> cs | _ \<Rightarrow> [])"

definition payload_rejected :: "(jsval \<Rightarrow> js_error + jsnum) \<Rightarrow> jsval \<Rightarrow> bool" where
  "payload_rejected tn data =
     (nullish data
      \<or> bad_competitors (field data ''competitors'')
      \<or> (concatenating (field data ''recommendedPrice'')
          \<and> isl (tn (field data ''recommendedPrice''))))"

subsection \<open>Sample inputs\<close>

definition sample_input :: ProductInput where
  "sample_input =
     \<lparr>ProductInput.name = ''Mug'', cost = Fin 100, currency = ''USD'', location = ''Paris'',
      category = ''Home'', desiredMargin = Fin 20\<rparr>"

text \<open>A runtime conversion that raises on every string, array and object.\<close>

definition strict_tn :: "jsval \<Rightarrow> js_error + jsnum" where
  "strict_tn v = Inl TypeError"

text \<open>A payload with a recommended price and one competitor, and no other field.\<close>

definition sample_payload :: jsval where
  "sample_payload =
     JObj [(''recommendedPrice'', JNum (Fin 200)),
           (''competitors'',
            JArr [JObj [(''name'', JStr ''A''), (''price'', JNum (Fin 12))]])]"

text \<open>A payload with every required field, a price of zero and a seasonality factor of zero.\<close>

definition zero_payload :: jsval where
  "zero_payload =
     JObj [(''recommendedPrice'', JNum (Fin 0)), (''minPrice'', JNum (Fin 0)),
           (''premiumPrice'', JNum (Fin 0)), (''explanation'', JStr ''none''),
           (''evidence'', JArr []), (''seasonalityFactor'', JNum (Fin 0)),
           (''competitors'', JArr [])]"

section \<open>Properties of the elasticity curve\<close>

lemma offsets: "[-5..5] = [-5, -4, -3, -2, -1, 0, 1, 2, 3, 4, 5::int]"
  by (simp add: upto.simps)

lemma conversion_loop_map_filter:
  "conversion_loop cp c rng i pts = pts @ List.map_filter (curve_point cp c) [i..rng]"
proof (induction cp c rng i pts rule: conversion_loop.induct)
  case (1 cp c rng i pts)
  note unroll = conversion_loop.simps [of cp c rng i pts]
  show ?case
  proof (cases "i \<le> rng")
    case False
    then show ?thesis by (simp add: unroll)
  next
    case True
    then have up: "[i..rng] = i # [i + 1..rng]" by (simp add: upto_rec1)
    show ?thesis
    proof (cases "curve_point cp c i")
      case None
      with True 1(1) up show ?thesis by (simp add: unroll)
    next
      case (Some pt)
      with True 1(2) up show ?thesis by (simp add: unroll)
    qed
  qed
qed

lemma calculateConversion_map_filter:
  "calculateConversion cp c =
     List.map_filter (curve_point cp c) [-5, -4, -3, -2, -1, 0, 1, 2, 3, 4, 5]"
  by (simp only: calculateConversion_def Let_def conversion_loop_map_filter offsets append_Nil)

lemma map_Some_map_filter:
  "map Some (List.map_filter f xs) = map f (filter (\<lambda>x. f x \<noteq> None) xs)"
  by (induction xs) (auto split: option.splits)

lemma set_map_filter:
  "(y \<in> set (List.map_filter f xs)) = (\<exists>x\<in>set xs. f x = Some y)"
  by (induction xs) (auto split: option.splits)

lemma candidate_price_Fin:
  "candidate_price (Fin x) i = Fin (x + of_int i * (x * (5 / 100)))"
  by (simp add: candidate_price_def)

lemma curve_point_None_iff:
  "(curve_point cp c i = None) = js_le (candidate_price cp i) c"
  by (simp add: curve_point_def Let_def)

lemma not_js_le_iff: "(\<not> js_le a b) = (js_gt a b \<or> a = NaN \<or> b = NaN)"
  by (cases a; cases b) auto

lemmas curve_eval =
  calculateConversion_map_filter curve_point_def candidate_price_Fin js_sub_def round2_def Let_def

text \<open>
  C4. On the reference price 100 and the cost 50 the curve has 11 points, one for each
  offset from -5 to 5 in this order; the point of offset 0 is (100, 100, 10000), the
  point of offset 5 is (125, 63, 7875), and the point of offset -5 has the price 75.
\<close>

theorem curve_100_50:
  "length (calculateConversion (Fin 100) (Fin 50)) = 11
   \<and> map Some (calculateConversion (Fin 100) (Fin 50)) =
       map (curve_point (Fin 100) (Fin 50)) [-5, -4, -3, -2, -1, 0, 1, 2, 3, 4, 5]
   \<and> calculateConversion (Fin 100) (Fin 50) ! 5 =
       \<lparr>price = Fin 100, estimatedSales = Fin 100, revenue = Fin 10000\<rparr>
   \<and> calculateConversion (Fin 100) (Fin 50) ! 10 =
       \<lparr>price = Fin 125, estimatedSales = Fin 63, revenue = Fin 7875\<rparr>
   \<and> price (calculateConversion (Fin 100) (Fin 50) ! 0) = Fin 75
   \<and> map price (calculateConversion (Fin 100) (Fin 50)) =
       [Fin 75, Fin 80, Fin 85, Fin 90, Fin 95, Fin 100, Fin 105, Fin 110, Fin 115, Fin 120,
        Fin 125]"
  by (simp add: curve_eval)

text \<open>
  C5, as the code has it. For every reference price and cost the curve consists, in the
  order of the offsets, of the points of exactly those offsets \<open>i\<close> from -5 to 5 for which
  the test \<^verbatim>\<open>p <= cost\<close> on the candidate price \<open>p\<close> is false; that is the case when \<open>p\<close> is
  greater than the cost, and also when \<open>p\<close> or the cost is NaN. So there are at most 11
  points, and for the price 50 and the cost 50 the points are those of the offsets 1 to
  5, with the prices 52.5, 55, 57.5, 60 and 62.5.
\<close>

theorem curve_emits_unskipped:
  "map Some (calculateConversion cp c) =
     map (curve_point cp c) (filter (\<lambda>i. \<not> js_le (candidate_price cp i) c) [-5..5])
   \<and> (curve_point cp c i = None) = js_le (candidate_price cp i) c
   \<and> (\<not> js_le (candidate_price cp i) c) =
       (js_gt (candidate_price cp i) c \<or> candidate_price cp i = NaN \<or> c = NaN)
   \<and> length (calculateConversion cp c) \<le> 11
   \<and> map Some (calculateConversion (Fin 50) (Fin 50)) =
       map (curve_point (Fin 50) (Fin 50)) [1, 2, 3, 4, 5]
   \<and> map price (calculateConversion (Fin 50) (Fin 50)) =
       [Fin (105 / 2), Fin 55, Fin (115 / 2), Fin 60, Fin (125 / 2)]"
proof -
  have a: "map Some (calculateConversion cp c) =
     map (curve_point cp c) (filter (\<lambda>i. \<not> js_le (candidate_price cp i) c) [-5..5])"
    for cp c
    unfolding offsets calculateConversion_map_filter map_Some_map_filter
    by (simp add: curve_point_None_iff)
  have "length (map Some (calculateConversion cp c)) \<le> length [-5..5::int]"
    unfolding a length_map by (rule length_filter_le)
  then have b: "length (calculateConversion cp c) \<le> 11"
    unfolding offsets by simp
  have c: "map Some (calculateConversion (Fin 50) (Fin 50)) =
      map (curve_point (Fin 50) (Fin 50)) [1, 2, 3, 4, 5]"
    unfolding a offsets by (simp add: candidate_price_Fin)
  have d: "map price (calculateConversion (Fin 50) (Fin 50)) =
      [Fin (105 / 2), Fin 55, Fin (115 / 2), Fin 60, Fin (125 / 2)]"
    by (simp add: curve_eval)
  from a b c d curve_point_None_iff not_js_le_iff show ?thesis by blast
qed

text \<open>
  C5, as the claim has it, fails: for the reference price NaN, which is what an absent
  recommended price becomes, and the cost 50, every candidate price is NaN and none is
  greater than the cost, yet all 11 points are returned.
\<close>

theorem curve_nan_price_counterexample:
  "map (candidate_price NaN) [-5, -4, -3, -2, -1, 0, 1, 2, 3, 4, 5] = replicate 11 NaN
   \<and> \<not> js_gt NaN (Fin 50)
   \<and> calculateConversion NaN (Fin 50) =
       replicate 11 \<lparr>price = NaN, estimatedSales = NaN, revenue = NaN\<rparr>"
  by (simp add: calculateConversion_map_filter curve_point_def candidate_price_def js_sub_def
        Let_def eval_nat_numeral)

text \<open>
  C6, as the code has it. For a finite reference price that is zero or negative and a
  cost that is not negative, every offset from -5 to 5 takes the \<^verbatim>\<open>continue\<close>, so the
  division by the reference price is not reached, and the curve is empty. The function
  has no error result: nothing in it raises.
\<close>

theorem curve_empty_nonpositive_price:
  assumes "x \<le> 0" and "js_le (Fin 0) c"
  shows "calculateConversion (Fin x) c = [] \<and> (\<forall>i\<in>{-5..5}. curve_point (Fin x) c i = None)"
proof -
  have none: "curve_point (Fin x) c i = None" if "-5 \<le> i" for i
  proof -
    have "0 \<le> 1 + real_of_int i * (5 / 100)" using that by simp
    with assms(1) have "x * (1 + real_of_int i * (5 / 100)) \<le> 0"
      by (rule mult_nonpos_nonneg)
    then have p: "x + real_of_int i * (x * (5 / 100)) \<le> 0" by (simp add: algebra_simps)
    from assms(2) p show ?thesis
      by (cases c) (simp_all add: curve_point_def candidate_price_Fin)
  qed
  then have "calculateConversion (Fin x) c = []"
    by (simp add: calculateConversion_map_filter)
  with none show ?thesis by simp
qed

theorem curve_empty_nonpositive_price_witness:
  "calculateConversion (Fin 0) (Fin 0) = [] \<and> curve_point (Fin 0) (Fin 0) (- 5) = None
   \<and> calculateConversion (Fin (- 10)) (Fin 3) = []"
proof -
  have h0: "(0::real) \<le> 0" and h1: "(- 10::real) \<le> 0"
    and c0: "js_le (Fin 0) (Fin 0)" and c1: "js_le (Fin 0) (Fin 3)"
    by simp_all
  from curve_empty_nonpositive_price [OF h0 c0] curve_empty_nonpositive_price [OF h1 c1]
  show ?thesis by simp
qed

text \<open>
  C6, as the claim has it, fails: minus infinity is not greater than 0, but for the
  reference price minus infinity and the cost 0 the candidate prices of the offsets -5
  to 0 are NaN, which the test \<^verbatim>\<open>p <= cost\<close> does not skip, and six points are returned.
\<close>

theorem curve_minus_infinity_counterexample:
  "js_le NInf (Fin 0)
   \<and> map (candidate_price NInf) [-5, -4, -3, -2, -1, 0] = replicate 6 NaN
   \<and> calculateConversion NInf (Fin 0) =
       replicate 6 \<lparr>price = NaN, estimatedSales = NaN, revenue = NaN\<rparr>"
  by (simp add: calculateConversion_map_filter curve_point_def candidate_price_def js_sub_def
        signed_inf_def Let_def eval_nat_numeral)

text \<open>
  C9, as the code has it. Every point of the curve belongs to an offset \<open>i\<close> from -5 to 5
  whose candidate price \<open>p\<close> is not skipped; its price is \<open>p\<close> rounded to two decimal
  places, and its revenue is the product of the unrounded \<open>p\<close> and the estimated sales,
  rounded to two decimal places.
\<close>

theorem revenue_from_unrounded_price:
  assumes "pt \<in> set (calculateConversion cp c)"
  shows "\<exists>i\<in>{-5..5}. \<not> js_le (candidate_price cp i) c
           \<and> price pt = toFixed2 (candidate_price cp i)
           \<and> revenue pt = toFixed2 (js_mul (candidate_price cp i) (estimatedSales pt))"
proof -
  from assms obtain i where "i \<in> set [-5, -4, -3, -2, -1, 0, 1, 2, 3, 4, 5::int]"
    and s: "curve_point cp c i = Some pt"
    unfolding calculateConversion_map_filter set_map_filter by blast
  then have i: "i \<in> {-5..5}" by auto
  from s have "\<not> js_le (candidate_price cp i) c
           \<and> price pt = toFixed2 (candidate_price cp i)
           \<and> revenue pt = toFixed2 (js_mul (candidate_price cp i) (estimatedSales pt))"
    by (auto simp: curve_point_def Let_def split: if_splits)
  with i show ?thesis by auto
qed

theorem revenue_from_unrounded_price_witness:
  "\<exists>i\<in>{-5..5}. \<not> js_le (candidate_price (Fin (1999 / 100)) i) (Fin 10)
     \<and> Fin (2399 / 100) = toFixed2 (candidate_price (Fin (1999 / 100)) i)
     \<and> Fin (41979 / 25) = toFixed2 (js_mul (candidate_price (Fin (1999 / 100)) i) (Fin 70))"
proof -
  have "\<lparr>price = Fin (2399 / 100), estimatedSales = Fin 70, revenue = Fin (41979 / 25)\<rparr>
          \<in> set (calculateConversion (Fin (1999 / 100)) (Fin 10))"
    by (simp add: curve_eval)
  from revenue_from_unrounded_price [OF this] show ?thesis by simp
qed

text \<open>
  C9, as the claim has it, fails: for the reference price 19.99 and the cost 10, the
  point of offset 4 has the price 23.99, the sales 70 and the revenue 1679.16, while the
  product of its price and its sales is 1679.30.
\<close>

theorem revenue_rounded_price_counterexample:
  "calculateConversion (Fin (1999 / 100)) (Fin 10) ! 9 =
     \<lparr>price = Fin (2399 / 100), estimatedSales = Fin 70, revenue = Fin (41979 / 25)\<rparr>
   \<and> toFixed2 (js_mul (Fin (2399 / 100)) (Fin 70)) = Fin (16793 / 10)
   \<and> Fin (41979 / 25) \<noteq> Fin (16793 / 10)"
  by (simp add: curve_eval)

section \<open>Properties of the normalizer\<close>

subsection \<open>When the \<^verbatim>\<open>try\<close> block raises\<close>

lemma props_cases:
  obtains "nullish v" "props v = Inl TypeError" | "\<not> nullish v" "props v = Inr (field v)"
  by (cases v) (auto simp: fun_eq_iff)

lemma prim_num_None: "(prim_num v = None) = concatenating v"
  by (cases v) auto

lemma history_from_fails:
  "(\<exists>e. history_from p n rs = Inl e) = (0 < n \<and> concatenating p)"
proof (induction n arbitrary: rs)
  case 0
  show ?case by simp
next
  case (Suc n)
  show ?case
  proof (cases "prim_num p")
    case None
    then show ?thesis by (simp add: history_entry_def prim_num_None [symmetric])
  next
    case (Some a)
    then have nc: "\<not> concatenating p" by (simp add: prim_num_None [symmetric])
    with Suc [of "stl rs"] have "\<nexists>e. history_from p n (stl rs) = Inl e" by simp
    with Some nc show ?thesis
      by (auto simp add: history_entry_def Let_def split: sum.splits)
  qed
qed

lemma competitor_of_fails: "(\<exists>e. competitor_of c rs = Inl e) = bad_competitor c"
proof (cases c rule: props_cases)
  case 1
  then show ?thesis by (simp add: competitor_of_def bad_competitor_def)
next
  case 2
  obtain st rs1 where r: "run_rnd stockStatus_rnd rs = (st, rs1)" by force
  from history_from_fails [of "field c ''price''" 6 rs1]
  show ?thesis using 2 r
    by (auto simp add: competitor_of_def bad_competitor_def split: sum.splits)
qed

lemma map_competitors_fails:
  "(\<exists>e. map_competitors cs rs = Inl e) = list_ex bad_competitor cs"
proof (induction cs arbitrary: rs)
  case Nil
  show ?case by simp
next
  case (Cons c cs)
  show ?case
  proof (cases "competitor_of c rs")
    case (Inl e)
    with competitor_of_fails [of c rs] show ?thesis by auto
  next
    case (Inr a)
    obtain k rs1 where a: "a = (k, rs1)" by force
    from Inr competitor_of_fails [of c rs] have "\<not> bad_competitor c" by auto
    with Inr a Cons [of rs1] show ?thesis
      by (auto split: sum.splits)
  qed
qed

lemma ToNumber_fails:
  "(\<exists>e. ToNumber tn v = Inl e) = (concatenating v \<and> isl (tn v))"
  by (cases "prim_num v") (auto simp: ToNumber_def prim_num_None [symmetric] isl_def)

text \<open>What a result of the \<^verbatim>\<open>try\<close> block holds.\<close>

lemma normalize_response_Inr:
  assumes "normalize_response tn (Parsed data) input rs = Inr r"
  shows "\<not> nullish data"
    and "recommendedPrice r = field data ''recommendedPrice''"
    and "\<exists>rp. ToNumber tn (field data ''recommendedPrice'') = Inr rp
           \<and> profitMargin r = js_mul (js_div (js_sub rp (cost input)) rp) (Fin 100)"
    and "adjustmentFactor (seasonality r) =
           js_or (field data ''seasonalityFactor'') (JNum (Fin 1))"
proof -
  show n: "\<not> nullish data"
    using assms by (cases data rule: props_cases) (simp_all add: normalize_response_def)
  then have p: "props data = Inr (field data)"
    by (cases data rule: props_cases) simp_all
  from assms p show "recommendedPrice r = field data ''recommendedPrice''"
    by (auto simp add: normalize_response_def split: sum.splits jsval.splits)
  from assms p show "\<exists>rp. ToNumber tn (field data ''recommendedPrice'') = Inr rp
           \<and> profitMargin r = js_mul (js_div (js_sub rp (cost input)) rp) (Fin 100)"
    by (auto simp add: normalize_response_def split: sum.splits jsval.splits)
  from assms p show "adjustmentFactor (seasonality r) =
           js_or (field data ''seasonalityFactor'') (JNum (Fin 1))"
    by (auto simp add: normalize_response_def split: sum.splits jsval.splits)
qed

lemma response_cases:
  obtains e where "response_data response = Inl e"
      "normalize_response tn response input rs = Inl e"
  | data where "response_data response = Inr data"
      "normalize_response tn response input rs = normalize_response tn (Parsed data) input rs"
  by (cases response) (auto simp: normalize_response_def)

lemmas normalizer_eval =
  analyzePrice_def normalize_response_def fallback_def sample_input_def zero_payload_def
  js_or_def ToNumber_def js_sub_def signed_inf_def Let_def

lemma try_raises_iff:
  "(\<exists>e. normalize_response tn (Parsed data) input rs = Inl e) = payload_rejected tn data"
proof (cases data rule: props_cases)
  case 1
  then show ?thesis by (simp add: normalize_response_def payload_rejected_def)
next
  case 2
  note rp = ToNumber_fails [of tn "field data ''recommendedPrice''"]
  show ?thesis
  proof (cases "truthy (field data ''competitors'')")
    case False
    with 2 rp show ?thesis
      by (cases "field data ''competitors''")
         (auto simp add: normalize_response_def payload_rejected_def js_or_def
            split: sum.splits)
  next
    case True
    show ?thesis
    proof (cases "field data ''competitors''")
      case (JArr cs)
      with 2 True rp map_competitors_fails [of cs rs]
      show ?thesis
        by (auto simp add: normalize_response_def payload_rejected_def js_or_def
              split: sum.splits)
    qed (use 2 True in \<open>auto simp add: normalize_response_def payload_rejected_def js_or_def\<close>)
  qed
qed

text \<open>What the mapping and the \<^verbatim>\<open>try\<close> block return when they do not raise.\<close>

lemma history_from_length:
  "history_from p n rs = Inr (hs, rs') \<Longrightarrow> length hs = n"
  by (induction n arbitrary: rs hs rs') (auto split: sum.splits)

lemma competitor_of_Inr:
  assumes "competitor_of c rs = Inr (k, rs')"
  shows "Competitor.name k = field c ''name''"
    and "Competitor.price k = field c ''price''"
    and "trend k = js_or (field c ''trend'') (JStr ''stable'')"
    and "length (history k) = 6"
proof -
  from assms have n: "props c = Inr (field c)"
    by (cases c rule: props_cases) (simp_all add: competitor_of_def)
  obtain st rs1 where r: "run_rnd stockStatus_rnd rs = (st, rs1)" by force
  from assms n r obtain hs where h: "history_from (field c ''price'') 6 rs1 = Inr (hs, rs')"
    and k: "k = \<lparr>Competitor.name = field c ''name'', price = field c ''price'', stockStatus = st,
                  trend = js_or (field c ''trend'') (JStr ''stable''), history = rev hs\<rparr>"
    by (auto simp add: competitor_of_def split: sum.splits)
  from k show "Competitor.name k = field c ''name''"
    and "Competitor.price k = field c ''price''"
    and "trend k = js_or (field c ''trend'') (JStr ''stable'')"
    by simp_all
  from k history_from_length [OF h] show "length (history k) = 6" by simp
qed

lemma map_competitors_Inr:
  "map_competitors cs rs = Inr (comps, rs') \<Longrightarrow>
     map Competitor.name comps = map (\<lambda>c. field c ''name'') cs
     \<and> map Competitor.price comps = map (\<lambda>c. field c ''price'') cs
     \<and> map trend comps = map (\<lambda>c. js_or (field c ''trend'') (JStr ''stable'')) cs
     \<and> list_all (\<lambda>k. length (history k) = 6) comps"
proof (induction cs arbitrary: rs comps rs')
  case Nil
  then show ?case by simp
next
  case (Cons c cs)
  from Cons.prems obtain k rs1 ks where c: "competitor_of c rs = Inr (k, rs1)"
    and m: "map_competitors cs rs1 = Inr (ks, rs')" and comps: "comps = k # ks"
    by (auto split: sum.splits)
  from competitor_of_Inr [OF c] Cons.IH [OF m] comps show ?case by simp
qed

lemma try_result:
  assumes "\<not> payload_rejected tn data"
  shows "\<exists>rp comps rs'.
        ToNumber tn (field data ''recommendedPrice'') = Inr rp
        \<and> map_competitors (competitor_entries data) rs = Inr (comps, rs')
        \<and> normalize_response tn (Parsed data) input rs =
            Inr \<lparr>recommendedPrice = field data ''recommendedPrice'',
                 priceRange = \<lparr>range_min = field data ''minPrice'',
                               suggested = field data ''recommendedPrice'',
                               premium = field data ''premiumPrice''\<rparr>,
                 profitMargin = js_mul (js_div (js_sub rp (cost input)) rp) (Fin 100),
                 confidenceScore = field data ''confidenceScore'',
                 explanation = field data ''explanation'',
                 evidence = field data ''evidence'',
                 seasonality =
                   \<lparr>signal = field data ''seasonalitySignal'',
                    adjustmentFactor = js_or (field data ''seasonalityFactor'') (JNum (Fin 1)),
                    explanation = field data ''seasonalityExplanation''\<rparr>,
                 competitors = comps,
                 strategy = field data ''strategy''\<rparr>"
proof -
  from assms have n: "\<not> nullish data"
    and b: "\<not> bad_competitors (field data ''competitors'')"
    and t: "\<not> (concatenating (field data ''recommendedPrice'')
               \<and> isl (tn (field data ''recommendedPrice'')))"
    by (simp_all add: payload_rejected_def)
  from n have p: "props data = Inr (field data)"
    by (cases data rule: props_cases) simp_all
  from t ToNumber_fails [of tn "field data ''recommendedPrice''"]
  obtain rp where rp: "ToNumber tn (field data ''recommendedPrice'') = Inr rp"
    by (cases "ToNumber tn (field data ''recommendedPrice'')") auto
  from b have e: "js_or (field data ''competitors'') (JArr []) = JArr (competitor_entries data)"
    by (cases "field data ''competitors''")
       (auto simp add: js_or_def competitor_entries_def split: jsnum.splits)
  from b have "\<not> list_ex bad_competitor (competitor_entries data)"
    by (cases "field data ''competitors''") (simp_all add: competitor_entries_def)
  with map_competitors_fails [of "competitor_entries data" rs]
  obtain comps rs' where m: "map_competitors (competitor_entries data) rs = Inr (comps, rs')"
    by (cases "map_competitors (competitor_entries data) rs") auto
  from p e m rp show ?thesis by (simp add: normalize_response_def)
qed

text \<open>
  C2, as the code has it. No required field is validated. The \<^verbatim>\<open>try\<close> block raises on a
  parsed payload exactly when the payload is \<^verbatim>\<open>null\<close>, or its competitors are a truthy
  value that is no array, or an entry of the competitors is \<^verbatim>\<open>null\<close> or has a string, an
  array or an object as its price, or the recommended price is a string, an array or an
  object whose conversion to a number raises. On every other payload it returns the
  result whose fields are the payload's fields as they are, \<^verbatim>\<open>undefined\<close> where the payload
  has none: the recommended price (also as the suggested price), the minimum and the
  premium price, the confidence, the explanation, the evidence, the strategy, the
  seasonality signal and explanation, the seasonality factor or 1 for a falsy one, the
  margin computed from the number the recommended price stands for, and one competitor
  for each entry, with the entry's name and price, its trend or \<^verbatim>\<open>stable\<close>, and a history of
  six numbers.
\<close>

theorem normalize_response_outcome:
  "((\<exists>e. normalize_response tn (Parsed data) input rs = Inl e) = payload_rejected tn data)
   \<and> (\<not> payload_rejected tn data \<longrightarrow>
       (\<exists>rp comps rs'.
          ToNumber tn (field data ''recommendedPrice'') = Inr rp
          \<and> map_competitors (competitor_entries data) rs = Inr (comps, rs')
          \<and> map Competitor.name comps = map (\<lambda>c. field c ''name'') (competitor_entries data)
          \<and> map Competitor.price comps = map (\<lambda>c. field c ''price'') (competitor_entries data)
          \<and> map trend comps =
              map (\<lambda>c. js_or (field c ''trend'') (JStr ''stable'')) (competitor_entries data)
          \<and> list_all (\<lambda>k. length (history k) = 6) comps
          \<and> normalize_response tn (Parsed data) input rs =
              Inr \<lparr>recommendedPrice = field data ''recommendedPrice'',
                   priceRange = \<lparr>range_min = field data ''minPrice'',
                                 suggested = field data ''recommendedPrice'',
                                 premium = field data ''premiumPrice''\<rparr>,
                   profitMargin = js_mul (js_div (js_sub rp (cost input)) rp) (Fin 100),
                   confidenceScore = field data ''confidenceScore'',
                   explanation = field data ''explanation'',
                   evidence = field data ''evidence'',
                   seasonality =
                     \<lparr>signal = field data ''seasonalitySignal'',
                      adjustmentFactor =
                        js_or (field data ''seasonalityFactor'') (JNum (Fin 1)),
                      explanation = field data ''seasonalityExplanation''\<rparr>,
                   competitors = comps,
                   strategy = field data ''strategy''\<rparr>))"
proof (intro conjI impI)
  show "(\<exists>e. normalize_response tn (Parsed data) input rs = Inl e) = payload_rejected tn data"
    by (rule try_raises_iff)
next
  assume "\<not> payload_rejected tn data"
  from try_result [OF this, where input = input and rs = rs] obtain rp comps rs' where
    a: "ToNumber tn (field data ''recommendedPrice'') = Inr rp"
    and m: "map_competitors (competitor_entries data) rs = Inr (comps, rs')"
    and r: "normalize_response tn (Parsed data) input rs =
            Inr \<lparr>recommendedPrice = field data ''recommendedPrice'',
                 priceRange = \<lparr>range_min = field data ''minPrice'',
                               suggested = field data ''recommendedPrice'',
                               premium = field data ''premiumPrice''\<rparr>,
                 profitMargin = js_mul (js_div (js_sub rp (cost input)) rp) (Fin 100),
                 confidenceScore = field data ''confidenceScore'',
                 explanation = field data ''explanation'',
                 evidence = field data ''evidence'',
                 seasonality =
                   \<lparr>signal = field data ''seasonalitySignal'',
                    adjustmentFactor = js_or (field data ''seasonalityFactor'') (JNum (Fin 1)),
                    explanation = field data ''seasonalityExplanation''\<rparr>,
                 competitors = comps,
                 strategy = field data ''strategy''\<rparr>"
    by blast
  from map_competitors_Inr [OF m] a m r
  show "\<exists>rp comps rs'.
          ToNumber tn (field data ''recommendedPrice'') = Inr rp
          \<and> map_competitors (competitor_entries data) rs = Inr (comps, rs')
          \<and> map Competitor.name comps = map (\<lambda>c. field c ''name'') (competitor_entries data)
          \<and> map Competitor.price comps = map (\<lambda>c. field c ''price'') (competitor_entries data)
          \<and> map trend comps =
              map (\<lambda>c. js_or (field c ''trend'') (JStr ''stable'')) (competitor_entries data)
          \<and> list_all (\<lambda>k. length (history k) = 6) comps
          \<and> normalize_response tn (Parsed data) input rs =
              Inr \<lparr>recommendedPrice = field data ''recommendedPrice'',
                   priceRange = \<lparr>range_min = field data ''minPrice'',
                                 suggested = field data ''recommendedPrice'',
                                 premium = field data ''premiumPrice''\<rparr>,
                   profitMargin = js_mul (js_div (js_sub rp (cost input)) rp) (Fin 100),
                   confidenceScore = field data ''confidenceScore'',
                   explanation = field data ''explanation'',
                   evidence = field data ''evidence'',
                   seasonality =
                     \<lparr>signal = field data ''seasonalitySignal'',
                      adjustmentFactor =
                        js_or (field data ''seasonalityFactor'') (JNum (Fin 1)),
                      explanation = field data ''seasonalityExplanation''\<rparr>,
                   competitors = comps,
                   strategy = field data ''strategy''\<rparr>"
    by blast
qed


theorem normalize_response_outcome_witness:
  "\<not> payload_rejected strict_tn sample_payload
   \<and> (\<exists>comps.
        map Competitor.name comps = [JStr ''A'']
        \<and> map Competitor.price comps = [JNum (Fin 12)]
        \<and> map trend comps = [JStr ''stable'']
        \<and> normalize_response strict_tn (Parsed sample_payload) sample_input (sconst 0) =
            Inr \<lparr>recommendedPrice = JNum (Fin 200),
                 priceRange = \<lparr>range_min = Undefined, suggested = JNum (Fin 200),
                               premium = Undefined\<rparr>,
                 profitMargin = Fin 50,
                 confidenceScore = Undefined, explanation = Undefined, evidence = Undefined,
                 seasonality = \<lparr>signal = Undefined, adjustmentFactor = JNum (Fin 1),
                                explanation = Undefined\<rparr>,
                 competitors = comps, strategy = Undefined\<rparr>)"
proof -
  have n: "\<not> payload_rejected strict_tn sample_payload"
    by (simp add: payload_rejected_def sample_payload_def bad_competitor_def)
  have e: "competitor_entries sample_payload =
      [JObj [(''name'', JStr ''A''), (''price'', JNum (Fin 12))]]"
    by (simp add: competitor_entries_def sample_payload_def)
  have f: "field sample_payload ''recommendedPrice'' = JNum (Fin 200)"
    "field sample_payload ''minPrice'' = Undefined"
    "field sample_payload ''premiumPrice'' = Undefined"
    "field sample_payload ''confidenceScore'' = Undefined"
    "field sample_payload ''explanation'' = Undefined"
    "field sample_payload ''evidence'' = Undefined"
    "field sample_payload ''strategy'' = Undefined"
    "field sample_payload ''seasonalitySignal'' = Undefined"
    "field sample_payload ''seasonalityFactor'' = Undefined"
    "field sample_payload ''seasonalityExplanation'' = Undefined"
    by (simp_all add: sample_payload_def)
  from normalize_response_outcome [of strict_tn sample_payload sample_input "sconst 0"] n
  have "\<exists>rp comps rs'.
          ToNumber strict_tn (field sample_payload ''recommendedPrice'') = Inr rp
          \<and> map_competitors (competitor_entries sample_payload) (sconst 0) = Inr (comps, rs')
          \<and> map Competitor.name comps = map (\<lambda>c. field c ''name'') (competitor_entries sample_payload)
          \<and> map Competitor.price comps = map (\<lambda>c. field c ''price'') (competitor_entries sample_payload)
          \<and> map trend comps =
              map (\<lambda>c. js_or (field c ''trend'') (JStr ''stable'')) (competitor_entries sample_payload)
          \<and> list_all (\<lambda>k. length (history k) = 6) comps
          \<and> normalize_response strict_tn (Parsed sample_payload) sample_input (sconst 0) =
              Inr \<lparr>recommendedPrice = field sample_payload ''recommendedPrice'',
                   priceRange = \<lparr>range_min = field sample_payload ''minPrice'',
                                 suggested = field sample_payload ''recommendedPrice'',
                                 premium = field sample_payload ''premiumPrice''\<rparr>,
                   profitMargin = js_mul (js_div (js_sub rp (cost sample_input)) rp) (Fin 100),
                   confidenceScore = field sample_payload ''confidenceScore'',
                   explanation = field sample_payload ''explanation'',
                   evidence = field sample_payload ''evidence'',
                   seasonality =
                     \<lparr>signal = field sample_payload ''seasonalitySignal'',
                      adjustmentFactor =
                        js_or (field sample_payload ''seasonalityFactor'') (JNum (Fin 1)),
                      explanation = field sample_payload ''seasonalityExplanation''\<rparr>,
                   competitors = comps,
                   strategy = field sample_payload ''strategy''\<rparr>"
    by blast
  then obtain rp comps where
    t: "ToNumber strict_tn (field sample_payload ''recommendedPrice'') = Inr rp"
    and c1: "map Competitor.name comps =
        map (\<lambda>c. field c ''name'') (competitor_entries sample_payload)"
    and c2: "map Competitor.price comps =
        map (\<lambda>c. field c ''price'') (competitor_entries sample_payload)"
    and c3: "map trend comps =
        map (\<lambda>c. js_or (field c ''trend'') (JStr ''stable'')) (competitor_entries sample_payload)"
    and r: "normalize_response strict_tn (Parsed sample_payload) sample_input (sconst 0) =
              Inr \<lparr>recommendedPrice = field sample_payload ''recommendedPrice'',
                   priceRange = \<lparr>range_min = field sample_payload ''minPrice'',
                                 suggested = field sample_payload ''recommendedPrice'',
                                 premium = field sample_payload ''premiumPrice''\<rparr>,
                   profitMargin = js_mul (js_div (js_sub rp (cost sample_input)) rp) (Fin 100),
                   confidenceScore = field sample_payload ''confidenceScore'',
                   explanation = field sample_payload ''explanation'',
                   evidence = field sample_payload ''evidence'',
                   seasonality =
                     \<lparr>signal = field sample_payload ''seasonalitySignal'',
                      adjustmentFactor =
                        js_or (field sample_payload ''seasonalityFactor'') (JNum (Fin 1)),
                      explanation = field sample_payload ''seasonalityExplanation''\<rparr>,
                   competitors = comps,
                   strategy = field sample_payload ''strategy''\<rparr>"
    by blast
  from t have rp: "rp = Fin 200" by (simp add: f ToNumber_def)
  from c1 c2 c3 have d1: "map Competitor.name comps = [JStr ''A'']"
    and d2: "map Competitor.price comps = [JNum (Fin 12)]"
    and d3: "map trend comps = [JStr ''stable'']"
    by (simp_all add: e js_or_def)
  from r rp have d4:
    "normalize_response strict_tn (Parsed sample_payload) sample_input (sconst 0) =
       Inr \<lparr>recommendedPrice = JNum (Fin 200),
            priceRange = \<lparr>range_min = Undefined, suggested = JNum (Fin 200),
                          premium = Undefined\<rparr>,
            profitMargin = Fin 50,
            confidenceScore = Undefined, explanation = Undefined, evidence = Undefined,
            seasonality = \<lparr>signal = Undefined, adjustmentFactor = JNum (Fin 1),
                           explanation = Undefined\<rparr>,
            competitors = comps, strategy = Undefined\<rparr>"
    by (simp add: f js_or_def sample_input_def js_sub_def)
  show ?thesis
    by (intro conjI exI [of _ comps]) (fact n, fact d1, fact d2, fact d3, fact d4)
qed

text \<open>
  C2, as the claim has it, fails: the empty object, in which every required field is
  absent, is not rejected; the result is built from it, with \<^verbatim>\<open>undefined\<close> in the fields
  and NaN as the margin.
\<close>

theorem empty_payload_accepted_counterexample:
  "normalize_response strict_tn (Parsed (JObj [])) sample_input (sconst 0) =
     Inr \<lparr>recommendedPrice = Undefined,
          priceRange = \<lparr>range_min = Undefined, suggested = Undefined, premium = Undefined\<rparr>,
          profitMargin = NaN, confidenceScore = Undefined, explanation = Undefined,
          evidence = Undefined,
          seasonality = \<lparr>signal = Undefined, adjustmentFactor = JNum (Fin 1),
                         explanation = Undefined\<rparr>,
          competitors = [], strategy = Undefined\<rparr>"
  by (simp add: normalizer_eval)

subsection \<open>An example run\<close>

text \<open>
  A payload with the recommended price 200 and one competitor at the price 12, for the
  cost 100. The first draw 0.9 makes the competitor Low Stock; the draws 0.25 and 0.75
  give the history entries 11.7 and 12.3, the four draws 0 give 11.4, and the history is
  reversed.
\<close>

lemma example_run:
  "normalize_response strict_tn
     (Parsed (JObj [(''recommendedPrice'', JNum (Fin 200)),
                    (''competitors'',
                     JArr [JObj [(''name'', JStr ''A''), (''price'', JNum (Fin 12))]])]))
     sample_input (9 / 10 ## 1 / 4 ## 3 / 4 ## sconst 0) =
   Inr \<lparr>recommendedPrice = JNum (Fin 200),
        priceRange = \<lparr>range_min = Undefined, suggested = JNum (Fin 200),
                      premium = Undefined\<rparr>,
        profitMargin = Fin 50, confidenceScore = Undefined, explanation = Undefined,
        evidence = Undefined,
        seasonality = \<lparr>signal = Undefined, adjustmentFactor = JNum (Fin 1),
                       explanation = Undefined\<rparr>,
        competitors =
          [\<lparr>name = JStr ''A'', price = JNum (Fin 12), stockStatus = LowStock,
            trend = JStr ''stable'',
            history = [Fin (57 / 5), Fin (57 / 5), Fin (57 / 5), Fin (57 / 5),
                       Fin (123 / 10), Fin (117 / 10)]\<rparr>],
        strategy = Undefined\<rparr>"
  by (simp add: normalizer_eval competitor_of_def stockStatus_rnd_def history_entry_def
        round2_def eval_nat_numeral)

subsection \<open>The margin\<close>

text \<open>
  C1, as the code has it. On the success path the margin is computed from the number
  that the result's recommended price stands for and from the cost of the input, as
  \<open>(recommendedPrice - cost) / recommendedPrice * 100\<close>; on the fallback path the margin
  is the desired margin of the input. On neither path is it read from the payload.
\<close>

theorem profitMargin_by_path:
  "(case normalize_response tn response input rs of
      Inr r \<Rightarrow>
        analyzePrice tn response input rs = r
        \<and> (\<exists>rp. ToNumber tn (recommendedPrice r) = Inr rp
              \<and> profitMargin r = js_mul (js_div (js_sub rp (cost input)) rp) (Fin 100))
    | Inl e \<Rightarrow>
        analyzePrice tn response input rs = fallback input
        \<and> profitMargin (analyzePrice tn response input rs) = desiredMargin input)"
proof (cases "normalize_response tn response input rs")
  case (Inl e)
  then show ?thesis by (simp add: analyzePrice_def fallback_def Let_def)
next
  case (Inr r)
  then obtain data where "normalize_response tn (Parsed data) input rs = Inr r"
    by (cases response rule: response_cases [of _ tn input rs]) auto
  from normalize_response_Inr(2,3) [OF this] Inr show ?thesis
    by (simp add: analyzePrice_def)
qed

text \<open>
  C1, as the claim has it, fails on the fallback path: for the cost 100 and the desired
  margin 20 the result has the recommended price 120 and the margin 20, while
  \<open>(120 - 100) / 120 * 100\<close> is \<open>50 / 3\<close>.
\<close>

theorem profitMargin_fallback_counterexample:
  "profitMargin (analyzePrice strict_tn CallFailed sample_input (sconst 0)) = Fin 20
   \<and> recommendedPrice (analyzePrice strict_tn CallFailed sample_input (sconst 0)) =
       JNum (Fin 120)
   \<and> js_mul (js_div (js_sub (Fin 120) (cost sample_input)) (Fin 120)) (Fin 100) = Fin (50 / 3)
   \<and> Fin 20 \<noteq> Fin (50 / 3)"
  by (simp add: normalizer_eval)

subsection \<open>The fallback\<close>

text \<open>
  C3. The code at the input on which it departs from the claim: when the call fails for
  the cost 9.99 and the desired margin 25, the recommended price is 12.49, but the
  minimum and the suggested price of the range are the unrounded 12.4875 and the premium
  price is 14.985, where the claim has the recommended price 12.49 for both and
  \<open>12.49 * 1.2 = 14.988\<close> for the premium price. On the success path the suggested price is
  the recommended price itself.
\<close>

theorem fallback_range_unrounded:
  "recommendedPrice (analyzePrice strict_tn CallFailed
      (sample_input\<lparr>cost := Fin (999 / 100), desiredMargin := Fin 25\<rparr>) (sconst 0)) =
     JNum (Fin (1249 / 100))
   \<and> priceRange (analyzePrice strict_tn CallFailed
      (sample_input\<lparr>cost := Fin (999 / 100), desiredMargin := Fin 25\<rparr>) (sconst 0)) =
     \<lparr>range_min = JNum (Fin (999 / 80)), suggested = JNum (Fin (999 / 80)),
      premium = JNum (Fin (2997 / 200))\<rparr>
   \<and> JNum (Fin (999 / 80)) \<noteq> JNum (Fin (1249 / 100))
   \<and> js_mul (Fin (1249 / 100)) (Fin (12 / 10)) = Fin (3747 / 250)
   \<and> JNum (Fin (2997 / 200)) \<noteq> JNum (Fin (3747 / 250))"
  by (simp add: normalizer_eval)

subsection \<open>The stock status\<close>

text \<open>The results of a choice have the total probability 1.\<close>

lemma prob_total: "prob t (\<lambda>x. True) = 1"
  by (induction t) (simp_all add: algebra_simps)

text \<open>The status of a competitor in terms of the two draws that can decide it.\<close>

lemma stockStatus_draws:
  "fst (run_rnd stockStatus_rnd (u1 ## u2 ## rs)) =
     (if 8 / 10 < u1 then LowStock else if 9 / 10 < u2 then OutOfStock else InStock)"
  by (simp add: stockStatus_rnd_def)

text \<open>Every competitor gets its status from the draws that are next when its turn comes.\<close>

lemma competitor_stockStatus:
  "competitor_of c rs = Inr (k, rs') \<Longrightarrow> stockStatus k = fst (run_rnd stockStatus_rnd rs)"
  by (auto simp add: competitor_of_def split: sum.splits prod.splits)

text \<open>
  C7, as the code has it. With independent uniform draws, the status of a competitor is
  In Stock with probability 0.72, Low Stock with probability 0.20 and Out of Stock with
  probability 0.08: the first draw exceeds 0.8 with probability 0.2, and only otherwise
  a second draw, which exceeds 0.9 with probability 0.1, decides between the other two.
\<close>

theorem stockStatus_probabilities:
  "prob stockStatus_rnd ((=) InStock) = 72 / 100
   \<and> prob stockStatus_rnd ((=) LowStock) = 20 / 100
   \<and> prob stockStatus_rnd ((=) OutOfStock) = 8 / 100"
  by (simp add: stockStatus_rnd_def)

text \<open>C7, as the claim has it, fails: none of the three probabilities is the claimed one.\<close>

theorem stockStatus_80_10_10_counterexample:
  "prob stockStatus_rnd ((=) InStock) \<noteq> 80 / 100
   \<and> prob stockStatus_rnd ((=) LowStock) \<noteq> 10 / 100
   \<and> prob stockStatus_rnd ((=) OutOfStock) \<noteq> 10 / 100"
  by (simp add: stockStatus_rnd_def)

subsection \<open>A recommended price of zero\<close>

text \<open>
  C8, as the code has it. The division is not guarded. A payload whose recommended price
  is the number 0 is not rejected for that: unless it is \<^verbatim>\<open>null\<close> or its competitors make
  the mapping raise, the success path returns a result with the recommended price 0 and
  a margin that is not finite: NaN when the cost is 0 or NaN, and an infinity otherwise.
\<close>

theorem zero_price_not_guarded:
  assumes "response_data response = Inr data"
    and "field data ''recommendedPrice'' = JNum (Fin 0)"
    and "\<not> nullish data" and "\<not> bad_competitors (field data ''competitors'')"
  shows "\<exists>r. normalize_response tn response input rs = Inr r
           \<and> analyzePrice tn response input rs = r
           \<and> recommendedPrice r = JNum (Fin 0) \<and> \<not> is_finite (profitMargin r)
           \<and> (profitMargin r = NaN) = (cost input = Fin 0 \<or> cost input = NaN)"
proof -
  from assms(2-4) have "\<not> payload_rejected tn data"
    by (simp add: payload_rejected_def)
  then obtain r where r: "normalize_response tn (Parsed data) input rs = Inr r"
    unfolding try_raises_iff [of tn data input rs, symmetric]
    by (cases "normalize_response tn (Parsed data) input rs") auto
  from assms(1) have same: "normalize_response tn response input rs =
      normalize_response tn (Parsed data) input rs"
    by (cases response rule: response_cases [of _ tn input rs]) auto
  from normalize_response_Inr(2,3) [OF r] assms(2)
  have rp: "recommendedPrice r = JNum (Fin 0)"
    and pm: "profitMargin r = js_mul (js_div (js_sub (Fin 0) (cost input)) (Fin 0)) (Fin 100)"
    by (simp_all add: ToNumber_def)
  have nf: "\<not> is_finite (js_mul (js_div (js_sub (Fin 0) k) (Fin 0)) (Fin 100))" for k
    by (cases k) (simp_all add: js_sub_def signed_inf_def)
  have nan: "(js_mul (js_div (js_sub (Fin 0) k) (Fin 0)) (Fin 100) = NaN) =
      (k = Fin 0 \<or> k = NaN)" for k
    by (cases k) (simp_all add: js_sub_def signed_inf_def)
  from rp pm r same nf nan show ?thesis by (simp add: analyzePrice_def)
qed

theorem zero_price_not_guarded_witness:
  "\<exists>r. normalize_response strict_tn (Parsed zero_payload) sample_input (sconst 0) = Inr r
     \<and> analyzePrice strict_tn (Parsed zero_payload) sample_input (sconst 0) = r
     \<and> recommendedPrice r = JNum (Fin 0) \<and> \<not> is_finite (profitMargin r)
     \<and> (profitMargin r = NaN) = (cost sample_input = Fin 0 \<or> cost sample_input = NaN)"
proof -
  have d: "response_data (Parsed zero_payload) = Inr zero_payload" by simp
  have z: "field zero_payload ''recommendedPrice'' = JNum (Fin 0)"
    and n: "\<not> nullish zero_payload"
    and b: "\<not> bad_competitors (field zero_payload ''competitors'')"
    by (simp_all add: zero_payload_def)
  from zero_price_not_guarded [OF d z n b] show ?thesis .
qed

text \<open>
  C8, as the claim has it, fails: for the cost 100, a payload with the recommended price
  0 gives a success-path result with the recommended price 0 and the margin minus
  infinity.
\<close>

theorem zero_price_counterexample:
  "normalize_response strict_tn (Parsed zero_payload) sample_input (sconst 0) =
     Inr \<lparr>recommendedPrice = JNum (Fin 0),
          priceRange = \<lparr>range_min = JNum (Fin 0), suggested = JNum (Fin 0),
                        premium = JNum (Fin 0)\<rparr>,
          profitMargin = NInf, confidenceScore = Undefined, explanation = JStr ''none'',
          evidence = JArr [],
          seasonality = \<lparr>signal = Undefined, adjustmentFactor = JNum (Fin 1),
                         explanation = Undefined\<rparr>,
          competitors = [], strategy = Undefined\<rparr>
   \<and> \<not> is_finite NInf"
  by (simp add: normalizer_eval)

subsection \<open>The seasonality factor\<close>

text \<open>
  C10. The adjustment factor of a result is never the number 0, on either path; and when
  the payload's seasonality factor is falsy (absent, \<^verbatim>\<open>null\<close>, 0, NaN, the empty string or
  \<^verbatim>\<open>false\<close>), the adjustment factor of the result is 1, while a truthy factor is passed on
  by the success path as it is.
\<close>

theorem seasonality_factor_never_zero:
  "adjustmentFactor (seasonality (analyzePrice tn response input rs)) \<noteq> JNum (Fin 0)
   \<and> (response_data response = Inr data \<longrightarrow> \<not> truthy (field data ''seasonalityFactor'') \<longrightarrow>
        adjustmentFactor (seasonality (analyzePrice tn response input rs)) = JNum (Fin 1))
   \<and> (response_data response = Inr data \<longrightarrow> normalize_response tn response input rs = Inr r \<longrightarrow>
        adjustmentFactor (seasonality r) =
          (if truthy (field data ''seasonalityFactor'') then field data ''seasonalityFactor''
           else JNum (Fin 1)))"
proof -
  have fb: "adjustmentFactor (seasonality (fallback input)) = JNum (Fin 1)"
    by (simp add: fallback_def Let_def)
  have ok: "adjustmentFactor (seasonality r') =
      js_or (field d ''seasonalityFactor'') (JNum (Fin 1))"
    if "response_data response = Inr d" "normalize_response tn response input rs = Inr r'"
    for d r'
  proof -
    from that have "normalize_response tn (Parsed d) input rs = Inr r'"
      by (cases response rule: response_cases [of _ tn input rs]) auto
    then show ?thesis by (rule normalize_response_Inr(4))
  qed
  have nz: "js_or v (JNum (Fin 1)) \<noteq> JNum (Fin 0)" for v
    by (auto simp: js_or_def)
  have a: "adjustmentFactor (seasonality (analyzePrice tn response input rs)) \<noteq> JNum (Fin 0)"
  proof (cases "normalize_response tn response input rs")
    case (Inl e)
    with fb show ?thesis by (simp add: analyzePrice_def)
  next
    case (Inr r')
    then obtain d where "response_data response = Inr d"
      by (cases response rule: response_cases [of _ tn input rs]) auto
    from ok [OF this Inr] Inr nz show ?thesis by (simp add: analyzePrice_def)
  qed
  have b: "adjustmentFactor (seasonality (analyzePrice tn response input rs)) = JNum (Fin 1)"
    if d: "response_data response = Inr data" and f: "\<not> truthy (field data ''seasonalityFactor'')"
  proof (cases "normalize_response tn response input rs")
    case (Inl e)
    with fb show ?thesis by (simp add: analyzePrice_def)
  next
    case (Inr r')
    from ok [OF d Inr] Inr f show ?thesis by (simp add: analyzePrice_def js_or_def)
  qed
  from a b ok show ?thesis by (auto simp: js_or_def)
qed

theorem seasonality_factor_never_zero_witness:
  "field zero_payload ''seasonalityFactor'' = JNum (Fin 0)
   \<and> \<not> isl (normalize_response strict_tn (Parsed zero_payload) sample_input (sconst 0))
   \<and> adjustmentFactor (seasonality
        (analyzePrice strict_tn (Parsed zero_payload) sample_input (sconst 0))) = JNum (Fin 1)"
proof -
  have d: "response_data (Parsed zero_payload) = Inr zero_payload" by simp
  have z: "field zero_payload ''seasonalityFactor'' = JNum (Fin 0)"
    by (simp add: zero_payload_def)
  then have f: "\<not> truthy (field zero_payload ''seasonalityFactor'')" by simp
  have s: "\<not> isl (normalize_response strict_tn (Parsed zero_payload) sample_input (sconst 0))"
    by (simp add: normalizer_eval)
  from seasonality_factor_never_zero
    [of strict_tn "Parsed zero_payload" sample_input "sconst 0" zero_payload]
    d f z s
  show ?thesis by blast
qed

end
